theory Spec2Isabelle
  imports Complex_Main
begin

section \<open>JavaScript values\<close>

text \<open>
  The classification code of \<^verbatim>\<open>src/tabs/MapTab.vue\<close> works on JavaScript numbers and on
  the loosely typed property bags of GeoJSON features. A JavaScript number is a finite
  value, one of the two infinities, or NaN. Every finite double is a rational, so where
  numbers are only stored and compared a finite number is a \<^typ>\<open>rat\<close>. Where the code
  computes with numbers, they are doubles with rounding arithmetic (section on
  double-precision arithmetic below).
\<close>

datatype number = Fin rat | PInf | NInf | NaN

datatype jsval = Undefined | Null | Bool bool | Number number | String string

abbreviation num :: "rat \<Rightarrow> jsval" where
  "num r \<equiv> Number (Fin r)"

datatype error = TypeError

text \<open>\<^verbatim>\<open>Number.isFinite(v)\<close>: true for finite numbers only, with no coercion.\<close>

fun isFinite :: "jsval \<Rightarrow> bool" where
  "isFinite (Number (Fin r)) = True"
| "isFinite v = False"

text \<open>
  \<^verbatim>\<open>Number(v)\<close>. The conversion of a string (ECMAScript's StringToNumber) is a
  parameter \<open>sn\<close> of the model.
\<close>

fun toNumber :: "(string \<Rightarrow> number) \<Rightarrow> jsval \<Rightarrow> number" where
  "toNumber sn Undefined = NaN"
| "toNumber sn Null = Fin 0"
| "toNumber sn (Bool b) = (if b then Fin 1 else Fin 0)"
| "toNumber sn (Number n) = n"
| "toNumber sn (String s) = sn s"

text \<open>\<^verbatim>\<open>x || 0\<close> on a number: NaN and zero are falsy.\<close>

fun or_zero :: "number \<Rightarrow> number" where
  "or_zero NaN = Fin 0"
| "or_zero (Fin r) = (if r = 0 then Fin 0 else Fin r)"
| "or_zero n = n"

text \<open>The relational operators on numbers: every comparison with NaN is false.\<close>

fun num_lt :: "number \<Rightarrow> number \<Rightarrow> bool" where
  "num_lt (Fin a) (Fin b) = (a < b)"
| "num_lt (Fin a) PInf = True"
| "num_lt NInf (Fin b) = True"
| "num_lt NInf PInf = True"
| "num_lt a b = False"

fun num_le :: "number \<Rightarrow> number \<Rightarrow> bool" where
  "num_le (Fin a) (Fin b) = (a \<le> b)"
| "num_le (Fin a) PInf = True"
| "num_le NInf (Fin b) = True"
| "num_le NInf PInf = True"
| "num_le NInf NInf = True"
| "num_le PInf PInf = True"
| "num_le a b = False"

abbreviation num_ge :: "number \<Rightarrow> number \<Rightarrow> bool" where
  "num_ge a b \<equiv> num_le b a"

section \<open>Double-precision arithmetic\<close>

text \<open>
  A finite double is \<open>m * 2\<^sup>e\<close> for integers with \<open>|m| \<le> 2\<^sup>5\<^sup>3\<close> and \<open>-1074 \<le> e\<close>;
  \<open>Finite m e\<close> stands for it (one number has several such pairs). An operation of
  IEEE 754 returns the exact result rounded to the nearest double, a tie going to the
  even significand; a result that reaches \<open>2\<^sup>1\<^sup>0\<^sup>2\<^sup>4\<close> in magnitude after rounding
  is an infinity. Zero has no sign in this model: the code divides by counts only, and
  neither comparisons nor the membership test of a Set tell the two zeros apart.
\<close>

datatype double = Finite int int | PosInf | NegInf | NotANumber

definition dval :: "int \<Rightarrow> int \<Rightarrow> rat" where
  "dval m e = of_int m * 2 powi e"

fun value_of :: "double \<Rightarrow> number" where
  "value_of (Finite m e) = Fin (dval m e)"
| "value_of PosInf = PInf"
| "value_of NegInf = NInf"
| "value_of NotANumber = NaN"

text \<open>The number of binary digits of a positive integer.\<close>

function bitlen :: "int \<Rightarrow> int" where
  "bitlen n = (if n \<le> 0 then 0 else 1 + bitlen (n div 2))"
  by pat_completeness auto
termination
  by (relation "measure nat") auto

declare bitlen.simps [simp del]

text \<open>
  The binary exponent of a positive fraction \<open>p / q\<close>: the \<open>e\<close> with
  \<open>2\<^sup>e \<le> p / q < 2\<^sup>e\<^sup>+\<^sup>1\<close>. The difference of the two lengths is \<open>e\<close> or \<open>e + 1\<close>.
\<close>

definition below_pow2 :: "int \<Rightarrow> int \<Rightarrow> int \<Rightarrow> bool" where
  "below_pow2 p q e = (if 0 \<le> e then p < q * 2 ^ nat e else p * 2 ^ nat (- e) < q)"

definition log2_frac :: "int \<Rightarrow> int \<Rightarrow> int" where
  "log2_frac p q = (let e = bitlen p - bitlen q in if below_pow2 p q e then e - 1 else e)"


definition round_div :: "int \<Rightarrow> int \<Rightarrow> int" where
  "round_div n d =
     (let f = n div d; r = 2 * (n mod d)
      in if r < d then f
         else if d < r then f + 1
         else if even f then f else f + 1)"

text \<open>The fraction \<open>p / q\<close> times \<open>2\<^sup>k\<close>, rounded to an integer.\<close>

definition shift_div :: "int \<Rightarrow> int \<Rightarrow> int \<Rightarrow> int" where
  "shift_div p q k =
     (if 0 \<le> k then round_div (p * 2 ^ nat k) q else round_div p (q * 2 ^ nat (- k)))"

text \<open>
  The double nearest to \<open>(n / d) * 2\<^sup>e\<close>, for \<open>n > 0\<close> and \<open>d > 0\<close>, with the sign
  \<open>pos\<close>. The significand has 53 bits: the last place \<open>t\<close> is 52 below the binary
  exponent of the value, and not below \<open>-1074\<close> (subnormal numbers). The rounded
  significand \<open>m\<close> overflows when \<open>m * 2\<^sup>t\<close> reaches \<open>2\<^sup>1\<^sup>0\<^sup>2\<^sup>4\<close>.
\<close>

definition pack :: "bool \<Rightarrow> int \<Rightarrow> int \<Rightarrow> double" where
  "pack pos m t =
     (if 0 < m \<and> 1024 < bitlen m + t then (if pos then PosInf else NegInf)
      else Finite (if pos then m else - m) t)"

definition round_mag :: "bool \<Rightarrow> int \<Rightarrow> int \<Rightarrow> int \<Rightarrow> double" where
  "round_mag pos n d e =
     (let t = max (log2_frac n d + e) (- 1022) - 52
      in pack pos (shift_div n d (e - t)) t)"

definition round_dbl :: "int \<Rightarrow> int \<Rightarrow> int \<Rightarrow> double" where
  "round_dbl n d e =
     (if n = 0 then Finite 0 0
      else if 0 < n then round_mag True n d e
      else round_mag False (- n) d e)"

text \<open>A number given as a rational, and a count, as doubles.\<close>

definition double_of :: "rat \<Rightarrow> double" where
  "double_of r = (case quotient_of r of (p, q) \<Rightarrow> round_dbl p q 0)"

definition of_count :: "nat \<Rightarrow> double" where
  "of_count i = Finite (int i) 0"


text \<open>
  The four operations: the exact result of two finite operands is an integer or a
  fraction of integers times a power of two, and is rounded. Opposite infinities add to
  NaN, zero times infinity and the quotients \<open>0 / 0\<close> and \<open>\<infinity> / \<infinity>\<close> are NaN, and NaN
  is absorbing.
\<close>

fun dbl_add :: "double \<Rightarrow> double \<Rightarrow> double" where
  "dbl_add (Finite m1 e1) (Finite m2 e2) =
     (if e1 \<le> e2 then round_dbl (m1 + m2 * 2 ^ nat (e2 - e1)) 1 e1
      else round_dbl (m1 * 2 ^ nat (e1 - e2) + m2) 1 e2)"
| "dbl_add NotANumber b = NotANumber"
| "dbl_add a NotANumber = NotANumber"
| "dbl_add PosInf NegInf = NotANumber"
| "dbl_add NegInf PosInf = NotANumber"
| "dbl_add PosInf b = PosInf"
| "dbl_add a PosInf = PosInf"
| "dbl_add NegInf b = NegInf"
| "dbl_add a NegInf = NegInf"

fun dbl_neg :: "double \<Rightarrow> double" where
  "dbl_neg (Finite m e) = Finite (- m) e"
| "dbl_neg PosInf = NegInf"
| "dbl_neg NegInf = PosInf"
| "dbl_neg NotANumber = NotANumber"

definition dbl_sub :: "double \<Rightarrow> double \<Rightarrow> double" where
  "dbl_sub a b = dbl_add a (dbl_neg b)"

fun dbl_mul :: "double \<Rightarrow> double \<Rightarrow> double" where
  "dbl_mul (Finite m1 e1) (Finite m2 e2) = round_dbl (m1 * m2) 1 (e1 + e2)"
| "dbl_mul NotANumber b = NotANumber"
| "dbl_mul a NotANumber = NotANumber"
| "dbl_mul (Finite m e) b = (if m = 0 then NotANumber else if (0 < m) = (b = PosInf) then PosInf else NegInf)"
| "dbl_mul a (Finite m e) = (if m = 0 then NotANumber else if (0 < m) = (a = PosInf) then PosInf else NegInf)"
| "dbl_mul a b = (if a = b then PosInf else NegInf)"

fun dbl_div :: "double \<Rightarrow> double \<Rightarrow> double" where
  "dbl_div (Finite m1 e1) (Finite m2 e2) =
     (if m2 = 0 then (if m1 = 0 then NotANumber else if 0 < m1 then PosInf else NegInf)
      else if 0 < m2 then round_dbl m1 m2 (e1 - e2)
      else round_dbl (- m1) (- m2) (e1 - e2))"
| "dbl_div NotANumber b = NotANumber"
| "dbl_div a NotANumber = NotANumber"
| "dbl_div (Finite m e) b = Finite 0 0"
| "dbl_div a (Finite m e) = (if (0 \<le> m) = (a = PosInf) then PosInf else NegInf)"
| "dbl_div a b = NotANumber"

text \<open>\<^verbatim>\<open>a < b\<close> on doubles: exact, and false when an operand is NaN.\<close>

fun dbl_lt :: "double \<Rightarrow> double \<Rightarrow> bool" where
  "dbl_lt (Finite m1 e1) (Finite m2 e2) =
     (if e1 \<le> e2 then m1 < m2 * 2 ^ nat (e2 - e1) else m1 * 2 ^ nat (e1 - e2) < m2)"
| "dbl_lt (Finite m e) PosInf = True"
| "dbl_lt NegInf (Finite m e) = True"
| "dbl_lt NegInf PosInf = True"
| "dbl_lt a b = False"

section \<open>Features\<close>

text \<open>
  A feature is an object with a \<^verbatim>\<open>properties\<close> bag (possibly \<^verbatim>\<open>null\<close> or absent, which is
  \<open>None\<close>) and further fields (geometry, id, ...) that the classification never touches:
  they are the extension part of the record.
\<close>

record feature =
  properties :: "(string \<rightharpoonup> jsval) option"

text \<open>
  The attribute that is classified. In the source the key is written in Chinese; here it
  is the sequence of its UTF-8 bytes.
\<close>

definition value_key :: string where
  "value_key = [CHR 0xE6, CHR 0x9C, CHR 0x89, CHR 0xE5, CHR 0x81, CHR 0xB6, CHR 0x5F,
                CHR 0xE7, CHR 0x9B, CHR 0xB8, CHR 0xE5, CHR 0x90, CHR 0x8C, CHR 0xE6,
                CHR 0x80, CHR 0xA7, CHR 0xE5, CHR 0x88, CHR 0xA5, CHR 0x5F, CHR 0xE7,
                CHR 0xB8, CHR 0xBD, CHR 0xE8, CHR 0xA8, CHR 0x88]"

definition level_key :: string where
  "level_key = ''pride_level''"

text \<open>\<^verbatim>\<open>feature?.properties?.[key]\<close>: a missing bag or a missing key reads as undefined.\<close>

definition get_prop :: "'a feature_scheme \<Rightarrow> string \<Rightarrow> jsval" where
  "get_prop f k = (case properties f of None \<Rightarrow> Undefined
               | Some p \<Rightarrow> (case p k of None \<Rightarrow> Undefined | Some v \<Rightarrow> v))"

text \<open>\<^verbatim>\<open>{ ...feature.properties }\<close>: spreading null or undefined gives the empty object.\<close>

definition spread :: "'a feature_scheme \<Rightarrow> (string \<rightharpoonup> jsval)" where
  "spread f = (case properties f of None \<Rightarrow> Map.empty | Some p \<Rightarrow> p)"

text \<open>
  A reader of strings for data without numeric strings: every string reads as NaN.
\<close>

definition no_number :: "string \<Rightarrow> number" where
  "no_number s = NaN"

text \<open>\<^verbatim>\<open>Number(feature?.properties?.[key]) || 0\<close>\<close>

definition feature_value :: "(string \<Rightarrow> number) \<Rightarrow> 'a feature_scheme \<Rightarrow> number" where
  "feature_value sn f = or_zero (toNumber sn (get_prop f value_key))"

section \<open>Level assignment\<close>

text \<open>
  The scan of \<^verbatim>\<open>assignLevelsToFeatures\<close>:
  \<^verbatim>\<open>for (let i = 0; i < breaks.length - 1; i += 1)\<close>, leaving with \<^verbatim>\<open>level = i + 1\<close> at
  the first interval with \<^verbatim>\<open>value >= lower && value <= upper\<close>. The level was
  initialised to 0 and stays 0 when the loop runs to its end. The entries of \<open>breaks\<close>
  are coerced to numbers by the comparison.
\<close>

function level_scan :: "(string \<Rightarrow> number) \<Rightarrow> number \<Rightarrow> jsval list \<Rightarrow> nat \<Rightarrow> nat" where
  "level_scan sn v breaks i =
     (if i < length breaks - 1 then
        (let lower = toNumber sn (breaks ! i); upper = toNumber sn (breaks ! (i + 1))
         in if num_ge v lower \<and> num_le v upper then i + 1
            else level_scan sn v breaks (i + 1))
      else 0)"
  by pat_completeness auto
termination
  by (relation "measure (\<lambda>(sn, v, breaks, i). length breaks - i)") auto

declare level_scan.simps [simp del]

text \<open>The level of one feature: 0 unless \<^verbatim>\<open>value > 0\<close>.\<close>

definition feature_level :: "(string \<Rightarrow> number) \<Rightarrow> jsval list \<Rightarrow> 'a feature_scheme \<Rightarrow> nat" where
  "feature_level sn breaks f =
     (let v = feature_value sn f
      in if num_lt (Fin 0) v then level_scan sn v breaks 0 else 0)"

text \<open>
  The body of the \<^verbatim>\<open>forEach\<close>: the bag is replaced by a copy of itself (an empty object
  when it was null or absent) with \<^verbatim>\<open>pride_level\<close> set.
\<close>

definition assign_level :: "(string \<Rightarrow> number) \<Rightarrow> jsval list \<Rightarrow> 'a feature_scheme \<Rightarrow> 'a feature_scheme" where
  "assign_level sn breaks f =
     f\<lparr>properties :=
         Some ((spread f)(level_key \<mapsto> num (of_nat (feature_level sn breaks f))))\<rparr>"

text \<open>
  \<^verbatim>\<open>assignLevelsToFeatures(features, breaks)\<close> mutates the features in place; the model
  returns them. An argument that is not an array is \<open>None\<close>. With such an argument, or
  with fewer than two breaks, the function returns before touching any feature.
\<close>

definition assignLevelsToFeatures ::
  "(string \<Rightarrow> number) \<Rightarrow> 'a feature_scheme list option \<Rightarrow> jsval list option \<Rightarrow> 'a feature_scheme list option" where
  "assignLevelsToFeatures sn features breaks =
     (case (features, breaks) of
        (Some fs, Some bs) \<Rightarrow>
          if length bs < 2 then features else Some (map (assign_level sn bs) fs)
      | _ \<Rightarrow> features)"

section \<open>Natural breaks\<close>

text \<open>
  \<^verbatim>\<open>values.filter((value) => Number.isFinite(value)).sort((a, b) => a - b)\<close>: the finite
  numbers of the input, in ascending order. (The rounded difference of two doubles has
  the sign of the exact difference, so the comparator orders by value.)
\<close>

fun finite_part :: "jsval \<Rightarrow> rat option" where
  "finite_part (Number (Fin r)) = Some r"
| "finite_part v = None"

definition sorted_finite :: "jsval list \<Rightarrow> rat list" where
  "sorted_finite vs = sort (List.map_filter finite_part vs)"

text \<open>
  \<^verbatim>\<open>Array.from(new Set(sorted))\<close>: a set keeps the first occurrence of every value, in
  insertion order.
\<close>

definition uniqueValues :: "'a list \<Rightarrow> 'a list" where
  "uniqueValues xs = fold (\<lambda>x acc. if x \<in> set acc then acc else acc @ [x]) xs []"

text \<open>
  A read \<^verbatim>\<open>sorted[i]\<close> with a computed index: outside the array it gives undefined.
\<close>

definition at_index :: "rat list \<Rightarrow> int \<Rightarrow> jsval" where
  "at_index xs i = (if 0 \<le> i \<and> i < int (length xs) then num (xs ! nat i) else Undefined)"

text \<open>
  \<^verbatim>\<open>a < b\<close> on cells of the breaks array, which hold numbers or undefined: undefined is
  coerced to NaN, so the comparison is false.
\<close>

fun cell_lt :: "jsval \<Rightarrow> jsval \<Rightarrow> bool" where
  "cell_lt (Number a) (Number b) = num_lt a b"
| "cell_lt a b = False"

text \<open>
  The path for few distinct values (\<^verbatim>\<open>uniqueValues.length <= classCount\<close>): the distinct
  values are copied, then the last one is pushed
  \<^verbatim>\<open>while (breaks.length < classCount + 1)\<close>.
\<close>

function pad_breaks :: "rat list \<Rightarrow> nat \<Rightarrow> rat \<Rightarrow> rat list" where
  "pad_breaks breaks classCount m =
     (if length breaks < classCount + 1 then pad_breaks (breaks @ [m]) classCount m else breaks)"
  by pat_completeness auto
termination
  by (relation "measure (\<lambda>(breaks, classCount, m). classCount + 1 - length breaks)") auto

declare pad_breaks.simps [simp del]

definition few_values_breaks :: "rat list \<Rightarrow> nat \<Rightarrow> rat list" where
  "few_values_breaks u classCount =
     pad_breaks (fold (\<lambda>i breaks. breaks @ [u ! i]) [1..<length u] [u ! 0])
       classCount (u ! (length u - 1))"

text \<open>
  The state of the dynamic programme: the two tables of \<open>n + 1\<close> rows and
  \<open>classCount + 1\<close> columns, and the running sums. A table write \<^verbatim>\<open>t[r][c] = v\<close> is
  \<open>put2\<close>. Every write of the programme is inside the table, with one exception: with
  \<open>classCount = 0\<close> the rows have one column and the writes to column 1 append to the row.
\<close>

record dp =
  lowerClassLimits :: "nat list list"
  varianceCombinations :: "double list list"
  sum_arr :: "double list"
  sumSquares :: "double list"

definition put :: "'a list \<Rightarrow> nat \<Rightarrow> 'a \<Rightarrow> 'a list" where
  "put xs i v = (if i < length xs then xs[i := v] else xs @ [v])"

definition put2 :: "'a list list \<Rightarrow> nat \<Rightarrow> nat \<Rightarrow> 'a \<Rightarrow> 'a list list" where
  "put2 t r c v = t[r := put (t ! r) c v]"

text \<open>
  The allocations, all filled with 0. The source allocates the two sum arrays after the
  first loop, which does not read or write them.
\<close>

definition alloc :: "nat \<Rightarrow> nat \<Rightarrow> dp" where
  "alloc n classCount =
     \<lparr>lowerClassLimits = replicate (n + 1) (replicate (classCount + 1) 0),
      varianceCombinations = replicate (n + 1) (replicate (classCount + 1) (of_count 0)),
      sum_arr = replicate (n + 1) (of_count 0),
      sumSquares = replicate (n + 1) (of_count 0)\<rparr>"

text \<open>
  The first loop: for every class \<open>i\<close> of \<open>1..classCount\<close>, row 1 is seeded and the variance
  of the rows \<open>2..n\<close> is set to Infinity.
\<close>

definition seed_class :: "nat \<Rightarrow> nat \<Rightarrow> dp \<Rightarrow> dp" where
  "seed_class n i t =
     fold (\<lambda>j t. t\<lparr>varianceCombinations := put2 (varianceCombinations t) j i PosInf\<rparr>) [2..<n + 1]
       (t\<lparr>lowerClassLimits := put2 (lowerClassLimits t) 1 i 1,
          varianceCombinations := put2 (varianceCombinations t) 1 i (of_count 0)\<rparr>)"

definition seed_classes :: "nat \<Rightarrow> nat \<Rightarrow> dp \<Rightarrow> dp" where
  "seed_classes n classCount t = fold (seed_class n) [1..<classCount + 1] t"

text \<open>
  The second loop: running sums and sums of squares, and column 1 of both tables. Every
  operation rounds, so a sum of squares need not be the exact sum.
\<close>

definition prefix_step :: "rat list \<Rightarrow> nat \<Rightarrow> dp \<Rightarrow> dp" where
  "prefix_step sortedv i t =
     (let val = double_of (sortedv ! (i - 1));
          s = dbl_add (sum_arr t ! (i - 1)) val;
          q = dbl_add (sumSquares t ! (i - 1)) (dbl_mul val val)
      in t\<lparr>sum_arr := (sum_arr t)[i := s],
           sumSquares := (sumSquares t)[i := q],
           varianceCombinations :=
             put2 (varianceCombinations t) i 1 (dbl_sub q (dbl_div (dbl_mul s s) (of_count i))),
           lowerClassLimits := put2 (lowerClassLimits t) i 1 1\<rparr>)"

definition prefix_sums :: "rat list \<Rightarrow> dp \<Rightarrow> dp" where
  "prefix_sums sortedv t = fold (prefix_step sortedv) [1..<length sortedv + 1] t"

text \<open>
  The innermost loop, \<open>i\<close> from \<open>item\<close> down to \<open>classes\<close>: a candidate with a negative
  variance is skipped, and a candidate replaces the best one only when strictly better.
  The variance of a candidate is computed from rounded sums and can be negative, also
  for a class of one value.
\<close>

definition split_step :: "dp \<Rightarrow> nat \<Rightarrow> nat \<Rightarrow> nat \<Rightarrow> double \<times> nat \<Rightarrow> double \<times> nat" where
  "split_step t classes item i best =
     (let count = item - i + 1;
          sumRange = dbl_sub (sum_arr t ! item) (sum_arr t ! (i - 1));
          sumSquaresRange = dbl_sub (sumSquares t ! item) (sumSquares t ! (i - 1));
          currentVariance =
            dbl_sub sumSquaresRange (dbl_div (dbl_mul sumRange sumRange) (of_count count))
      in if dbl_lt currentVariance (of_count 0) then best
         else
           (let totalVariance =
                  dbl_add currentVariance (varianceCombinations t ! (i - 1) ! (classes - 1))
            in if dbl_lt totalVariance (fst best) then (totalVariance, i) else best))"

definition best_split :: "dp \<Rightarrow> nat \<Rightarrow> nat \<Rightarrow> double \<times> nat" where
  "best_split t classes item =
     fold (split_step t classes item) (rev [classes..<item + 1]) (PosInf, classes - 1)"

definition fill_item :: "nat \<Rightarrow> nat \<Rightarrow> dp \<Rightarrow> dp" where
  "fill_item classes item t =
     (let best = best_split t classes item
      in t\<lparr>varianceCombinations := put2 (varianceCombinations t) item classes (fst best),
           lowerClassLimits := put2 (lowerClassLimits t) item classes (snd best)\<rparr>)"

definition fill_class :: "nat \<Rightarrow> nat \<Rightarrow> dp \<Rightarrow> dp" where
  "fill_class n classes t = fold (fill_item classes) [classes..<n + 1] t"

definition fill_classes :: "nat \<Rightarrow> nat \<Rightarrow> dp \<Rightarrow> dp" where
  "fill_classes n classCount t = fold (fill_class n) [2..<classCount + 1] t"

text \<open>
  The backtracking loop \<^verbatim>\<open>while (count > 0)\<close>. The row index \<open>k\<close> is \<open>idx - 1\<close> for an
  \<open>idx\<close> read from the table, so it can be \<open>-1\<close>: then \<^verbatim>\<open>lowerClassLimits[k]\<close> is undefined
  and indexing it throws a TypeError. The column \<open>count\<close> is at most \<open>classCount\<close>.
\<close>

fun backtrack :: "rat list \<Rightarrow> nat list list \<Rightarrow> jsval list \<Rightarrow> int \<Rightarrow> nat \<Rightarrow> error + jsval list" where
  "backtrack sortedv lcl breaks k 0 = Inr breaks"
| "backtrack sortedv lcl breaks k (Suc c) =
     (if k < 0 \<or> int (length lcl) \<le> k then Inl TypeError
      else
        (let idx = int (lcl ! nat k ! Suc c)
         in backtrack sortedv lcl (breaks[c := at_index sortedv (idx - 1)]) (idx - 1) c))"

text \<open>
  The last loop forces the sequence to be non-decreasing:
  \<^verbatim>\<open>if (breaks[i] < breaks[i - 1]) breaks[i] = breaks[i - 1]\<close>.
\<close>

definition raise_step :: "nat \<Rightarrow> jsval list \<Rightarrow> jsval list" where
  "raise_step i breaks =
     (if cell_lt (breaks ! i) (breaks ! (i - 1)) then breaks[i := breaks ! (i - 1)] else breaks)"

definition enforce_monotone :: "jsval list \<Rightarrow> jsval list" where
  "enforce_monotone breaks = fold raise_step [1..<length breaks] breaks"

text \<open>The path for more distinct values than classes.\<close>

definition jenks_breaks :: "rat list \<Rightarrow> nat \<Rightarrow> error + jsval list" where
  "jenks_breaks sortedv classCount =
     (let n = length sortedv;
          t = fill_classes n classCount
                (prefix_sums sortedv (seed_classes n classCount (alloc n classCount)));
          breaks = (replicate (classCount + 1) (num 0))[classCount := num (sortedv ! (n - 1))]
      in case backtrack sortedv (lowerClassLimits t) breaks (int n) classCount of
           Inl e \<Rightarrow> Inl e
         | Inr breaks \<Rightarrow> Inr (enforce_monotone (breaks[0 := num (sortedv ! 0)])))"

text \<open>
  \<^verbatim>\<open>calculateNaturalBreaks(values, classCount)\<close>. An argument that is not an array is
  \<open>None\<close>; the result \<open>None\<close> is \<^verbatim>\<open>null\<close>.
\<close>

definition calculateNaturalBreaks :: "jsval list option \<Rightarrow> nat \<Rightarrow> error + jsval list option" where
  "calculateNaturalBreaks values classCount =
     (case values of
        None \<Rightarrow> Inr None
      | Some vs \<Rightarrow>
          if length vs = 0 then Inr None
          else
            (let sortedv = sorted_finite vs
             in if length sortedv = 0 then Inr None
                else
                  (let u = uniqueValues sortedv
                   in if length u \<le> classCount
                      then Inr (Some (map num (few_values_breaks u classCount)))
                      else (case jenks_breaks sortedv classCount of
                              Inl e \<Rightarrow> Inl e
                            | Inr breaks \<Rightarrow> Inr (Some breaks)))))"

section \<open>Classifying the loaded grid\<close>

text \<open>The six colours; their number is the class count.\<close>

definition prideColors :: "string list" where
  "prideColors = [''#750787'', ''#004DFF'', ''#008026'', ''#FFED00'', ''#FF8C00'', ''#E40303'']"

text \<open>
  The equal-interval breaks that \<^verbatim>\<open>ensureHexData2Levels\<close> builds when
  \<^verbatim>\<open>calculateNaturalBreaks\<close> returns null: \<^verbatim>\<open>step = (max - min) / classCount\<close>, then
  \<^verbatim>\<open>min + step * i\<close> is pushed for \<open>i\<close> in \<open>1..classCount\<close>. The values are the
  non-empty list of positive finite observations, so \<^verbatim>\<open>Math.min\<close> and \<^verbatim>\<open>Math.max\<close> are
  the least and the greatest element.
\<close>

definition fallbackBreaks :: "rat list \<Rightarrow> nat \<Rightarrow> double list" where
  "fallbackBreaks values classCount =
     (let min = double_of (Min (set values));
          max = double_of (Max (set values));
          step = dbl_div (dbl_sub max min) (of_count classCount)
      in fold (\<lambda>i breaks. breaks @ [dbl_add min (dbl_mul step (of_count i))])
           [1..<classCount + 1] [min])"

text \<open>
  \<^verbatim>\<open>.map((feature) => Number(...) || 0).filter((value) => Number.isFinite(value) && value > 0)\<close>
\<close>

fun positive_finite :: "number \<Rightarrow> rat option" where
  "positive_finite (Fin r) = (if 0 < r then Some r else None)"
| "positive_finite n = None"

definition positive_values :: "(string \<Rightarrow> number) \<Rightarrow> 'a feature_scheme list \<Rightarrow> rat list" where
  "positive_values sn fs = List.map_filter (\<lambda>f. positive_finite (feature_value sn f)) fs"

text \<open>
  The state that \<^verbatim>\<open>ensureHexData2Levels\<close> works on: the features of the loaded
  collection (\<open>None\<close> when nothing is loaded or \<^verbatim>\<open>features\<close> is not an array) and the
  stored breaks.
\<close>

record 'a grid =
  hexData2 :: "'a feature_scheme list option"
  hexData2Breaks :: "jsval list"

definition ensureHexData2Levels :: "(string \<Rightarrow> number) \<Rightarrow> 'a grid \<Rightarrow> error + 'a grid" where
  "ensureHexData2Levels sn g =
     (case hexData2 g of
        None \<Rightarrow> Inr g
      | Some features \<Rightarrow>
          (let values = positive_values sn features
           in if length values = 0
              then Inr (g\<lparr>hexData2Breaks := [],
                          hexData2 := assignLevelsToFeatures sn (Some features) (Some [])\<rparr>)
              else
                (let classCount = length prideColors
                 in case calculateNaturalBreaks (Some (map num values)) classCount of
                      Inl e \<Rightarrow> Inl e
                    | Inr None \<Rightarrow>
                        (let fallback = map (\<lambda>b. Number (value_of b)) (fallbackBreaks values classCount)
                         in Inr (g\<lparr>hexData2Breaks := fallback,
                                   hexData2 := assignLevelsToFeatures sn (Some features) (Some fallback)\<rparr>))
                    | Inr (Some breaks) \<Rightarrow>
                        Inr (g\<lparr>hexData2Breaks := breaks,
                                hexData2 := assignLevelsToFeatures sn (Some features) (Some breaks)\<rparr>))))"

section \<open>Properties of the level assignment\<close>

lemma value_key_neq_level_key: "value_key \<noteq> level_key"
  by (simp add: value_key_def level_key_def)

lemma get_prop_assign_level:
  "get_prop (assign_level sn bs f) k =
     (if k = level_key then num (of_nat (feature_level sn bs f)) else get_prop f k)"
  by (simp add: get_prop_def assign_level_def spread_def split: option.splits)

lemma more_assign_level: "feature.more (assign_level sn bs f) = feature.more f"
  by (simp add: assign_level_def)

lemma spread_assign_level:
  "spread (assign_level sn bs f) = (spread f)(level_key \<mapsto> num (of_nat (feature_level sn bs f)))"
  by (simp add: assign_level_def spread_def)

lemma feature_value_assign_level:
  "feature_value sn (assign_level sn' bs f) = feature_value sn f"
  using value_key_neq_level_key by (simp add: feature_value_def get_prop_assign_level)

lemma feature_level_assign_level:
  "feature_level sn bs (assign_level sn' bs' f) = feature_level sn bs f"
  by (simp add: feature_level_def feature_value_assign_level)

lemma assign_level_idem:
  "assign_level sn bs (assign_level sn bs f) = assign_level sn bs f"
proof -
  have "assign_level sn bs (assign_level sn bs f) =
          (assign_level sn bs f)\<lparr>properties :=
             Some ((spread f)(level_key \<mapsto> num (of_nat (feature_level sn bs f))))\<rparr>"
    by (simp only: assign_level_def [of sn bs "assign_level sn bs f"]
          spread_assign_level feature_level_assign_level fun_upd_upd)
  also have "\<dots> = assign_level sn bs f"
    by (simp add: assign_level_def)
  finally show ?thesis .
qed

lemma level_scan_no_interval:
  "(\<And>j. i \<le> j \<Longrightarrow> j + 1 < length bs \<Longrightarrow>
        \<not> (num_ge v (toNumber sn (bs ! j)) \<and> num_le v (toNumber sn (bs ! (j + 1)))))
   \<Longrightarrow> level_scan sn v bs i = 0"
proof (induction sn v bs i rule: level_scan.induct)
  case (1 sn v breaks i)
  show ?case
  proof (cases "i < length breaks - 1")
    case True
    then have in_range: "i + 1 < length breaks" by simp
    have miss: "\<not> (num_ge v (toNumber sn (breaks ! i)) \<and> num_le v (toNumber sn (breaks ! (i + 1))))"
      using "1.prems" [of i] in_range by simp
    have "level_scan sn v breaks (i + 1) = 0"
      using "1.IH" [OF True refl refl miss] "1.prems" by simp
    with True miss show ?thesis
      by (subst level_scan.simps) (simp add: Let_def)
  next
    case False
    then show ?thesis by (subst level_scan.simps) simp
  qed
qed

lemma level_scan_first_interval:
  "i \<le> m \<Longrightarrow> m + 1 < length bs \<Longrightarrow>
   num_ge v (toNumber sn (bs ! m)) \<Longrightarrow> num_le v (toNumber sn (bs ! (m + 1))) \<Longrightarrow>
   (\<And>j. i \<le> j \<Longrightarrow> j < m \<Longrightarrow>
        \<not> (num_ge v (toNumber sn (bs ! j)) \<and> num_le v (toNumber sn (bs ! (j + 1)))))
   \<Longrightarrow> level_scan sn v bs i = m + 1"
proof (induction sn v bs i rule: level_scan.induct)
  case (1 sn v breaks i)
  from "1.prems"(1,2) have inr: "i < length breaks - 1" by simp
  show ?case
  proof (cases "i = m")
    case True
    with "1.prems" inr show ?thesis
      by (subst level_scan.simps) (simp add: Let_def)
  next
    case False
    with "1.prems"(1) have lt: "i < m" by simp
    have miss: "\<not> (num_ge v (toNumber sn (breaks ! i)) \<and> num_le v (toNumber sn (breaks ! (i + 1))))"
      using "1.prems"(5) [of i] lt by simp
    have "level_scan sn v breaks (i + 1) = m + 1"
      using "1.IH" [OF inr refl refl miss] "1.prems" lt by simp
    with inr miss show ?thesis
      by (subst level_scan.simps) (auto simp: Let_def)
  qed
qed

lemma assign_nth:
  "2 \<le> length bs \<Longrightarrow> assignLevelsToFeatures sn (Some fs) (Some bs) = Some (map (assign_level sn bs) fs)"
  by (simp add: assignLevelsToFeatures_def)


lemma assign_nth_level:
  assumes "2 \<le> length bs" and "k < length fs"
  shows "\<exists>fs'. assignLevelsToFeatures sn (Some fs) (Some bs) = Some fs' \<and>
           length fs' = length fs \<and>
           get_prop (fs' ! k) level_key = num (of_nat (feature_level sn bs (fs ! k)))"
  using assms by (simp add: assign_nth get_prop_assign_level)

lemma num_lt_not_le: "num_lt (Fin a) v \<Longrightarrow> u \<le> a \<Longrightarrow> \<not> num_le v (Fin u)"
  by (cases v) auto

lemma or_zero_not_positive:
  "n = NaN \<or> \<not> num_lt (Fin 0) n \<Longrightarrow> \<not> num_lt (Fin 0) (or_zero n)"
  by (cases n) auto

text \<open>
  Claim C3, as amended. The scan has no clamping step: the level starts at 0 and is only
  set inside a matching interval. So for at least two non-decreasing breaks, a feature
  whose positive value is strictly greater than the last break lies in no interval and
  is assigned level 0, not the last class.
\<close>

theorem level_zero_above_last_break:
  assumes "2 \<le> length bs" and "sorted bs" and "k < length fs"
    and "num_lt (Fin 0) (feature_value sn (fs ! k))"
    and "num_lt (Fin (last bs)) (feature_value sn (fs ! k))"
  shows "\<exists>fs'. assignLevelsToFeatures sn (Some fs) (Some (map num bs)) = Some fs' \<and>
           get_prop (fs' ! k) level_key = num 0"
proof -
  let ?v = "feature_value sn (fs ! k)"
  have "\<not> num_le ?v (toNumber sn (map num bs ! (j + 1)))" if "j + 1 < length (map num bs)" for j
  proof -
    from that have "j + 1 < length bs" by simp
    moreover from this have "bs ! (j + 1) \<le> last bs"
      using sorted_nth_mono [OF \<open>sorted bs\<close>, of "j + 1" "length bs - 1"]
      by (cases "bs = []") (simp_all add: last_conv_nth)
    ultimately show ?thesis
      using assms(5) by (simp add: num_lt_not_le)
  qed
  then have "level_scan sn ?v (map num bs) 0 = 0"
    by (intro level_scan_no_interval) blast
  then have "feature_level sn (map num bs) (fs ! k) = 0"
    by (simp add: feature_level_def Let_def)
  then show ?thesis
    using assign_nth_level [of "map num bs" k fs sn] assms(1,3) by auto
qed

text \<open>The amended claim C3 at the breaks 1, 10, 50, 52 and the value 60.\<close>

theorem level_zero_above_last_break_witness:
  "\<exists>fs'. assignLevelsToFeatures no_number
            (Some [\<lparr>properties = Some [value_key \<mapsto> num 60]\<rparr>]) (Some (map num [1, 10, 50, 52])) = Some fs' \<and>
         get_prop (fs' ! 0) level_key = num 0"
  using level_zero_above_last_break
          [of "[1, 10, 50, 52]" 0 "[\<lparr>properties = Some [value_key \<mapsto> num 60]\<rparr>]" no_number]
  by (simp add: feature_value_def get_prop_def)

text \<open>
  Claim C3 as stated fails: with the breaks 1, 2 the value 3 exceeds the last break and
  the assigned level is 0, while the last class is \<open>breaks.length - 1 = 1\<close>.
\<close>

theorem no_clamp_counterexample:
  "assignLevelsToFeatures no_number
     (Some [\<lparr>properties = Some [value_key \<mapsto> num 3]\<rparr>]) (Some [num 1, num 2])
   = Some [\<lparr>properties = Some [value_key \<mapsto> num 3, level_key \<mapsto> num 0]\<rparr>]
   \<and> (0::nat) \<noteq> length [num 1, num 2] - 1"
  by (simp add: assignLevelsToFeatures_def assign_level_def feature_level_def feature_value_def
        get_prop_def spread_def level_scan.simps)

text \<open>
  Claim C4, as amended. A feature whose positive value equals an interior break
  \<open>breaks[i]\<close> that is strictly greater than every earlier break is assigned level \<open>i\<close>,
  the lower-numbered of the two classes that meet at that break: the scan stops at
  interval \<open>i - 1\<close>, the first one that contains the value.
\<close>

theorem boundary_value_level:
  assumes "0 < i" and "i < length bs - 1" and "\<forall>j<i. bs ! j < bs ! i"
    and "k < length fs" and "feature_value sn (fs ! k) = Fin (bs ! i)" and "0 < bs ! i"
  shows "\<exists>fs'. assignLevelsToFeatures sn (Some fs) (Some (map num bs)) = Some fs' \<and>
           get_prop (fs' ! k) level_key = num (of_nat i)"
proof -
  let ?v = "Fin (bs ! i)"
  from assms(1,2) have i: "i - 1 + 1 = i" "i < length bs" "i - 1 < length bs" "2 \<le> length bs"
    by simp_all
  have "level_scan sn ?v (map num bs) 0 = (i - 1) + 1"
  proof (rule level_scan_first_interval)
    show "0 \<le> i - 1" by simp
    show "i - 1 + 1 < length (map num bs)" using i by simp
    show "num_ge ?v (toNumber sn (map num bs ! (i - 1)))"
      using assms(1,3) i by (simp add: less_imp_le)
    show "num_le ?v (toNumber sn (map num bs ! (i - 1 + 1)))"
      using i by simp
    show "\<not> (num_ge ?v (toNumber sn (map num bs ! j)) \<and> num_le ?v (toNumber sn (map num bs ! (j + 1))))"
      if "0 \<le> j" and "j < i - 1" for j
    proof -
      from that have "j + 1 < i" by simp
      with assms(3) have "bs ! (j + 1) < bs ! i" by blast
      moreover have "j + 1 < length bs" using \<open>j + 1 < i\<close> i by simp
      ultimately show ?thesis by simp
    qed
  qed
  then have "feature_level sn (map num bs) (fs ! k) = i"
    using assms(5,6) i by (simp add: feature_level_def Let_def)
  then show ?thesis
    using assign_nth_level [of "map num bs" k fs sn] assms(4) i by auto
qed

text \<open>The amended claim C4 at the breaks 1, 10, 50, 52 and the value 10.\<close>

theorem boundary_value_level_witness:
  "\<exists>fs'. assignLevelsToFeatures no_number
            (Some [\<lparr>properties = Some [value_key \<mapsto> num 10]\<rparr>]) (Some (map num [1, 10, 50, 52])) = Some fs' \<and>
         get_prop (fs' ! 0) level_key = num 1"
  using boundary_value_level
          [of 1 "[1, 10, 50, 52]" 0 "[\<lparr>properties = Some [value_key \<mapsto> num 10]\<rparr>]" no_number]
  by (simp add: feature_value_def get_prop_def less_Suc_eq)

text \<open>
  Claim C4 as stated fails when breaks are tied: with the breaks 1, 3, 3, 7 the value 3
  equals the interior break \<open>breaks[2]\<close>, and the assigned level is 1, not 2.
\<close>

theorem tied_break_counterexample:
  "assignLevelsToFeatures no_number
     (Some [\<lparr>properties = Some [value_key \<mapsto> num 3]\<rparr>]) (Some [num 1, num 3, num 3, num 7])
   = Some [\<lparr>properties = Some [value_key \<mapsto> num 3, level_key \<mapsto> num 1]\<rparr>]
   \<and> [num 1, num 3, num 3, num 7] ! 2 = num 3 \<and> (1::nat) \<noteq> 2"
  by (simp add: assignLevelsToFeatures_def assign_level_def feature_level_def feature_value_def
        get_prop_def spread_def level_scan.simps)

text \<open>
  With at least two breaks, whatever they are, a feature whose attribute is missing, does
  not coerce to a number, or coerces to a number that is not strictly greater than zero
  is assigned level 0.
\<close>

lemma level_zero_without_positive_value:
  assumes "2 \<le> length breaks" and "k < length fs"
    and "get_prop (fs ! k) value_key = Undefined
         \<or> toNumber sn (get_prop (fs ! k) value_key) = NaN
         \<or> \<not> num_lt (Fin 0) (toNumber sn (get_prop (fs ! k) value_key))"
  shows "\<exists>fs'. assignLevelsToFeatures sn (Some fs) (Some breaks) = Some fs' \<and>
           get_prop (fs' ! k) level_key = num 0"
proof -
  from assms(3) have "toNumber sn (get_prop (fs ! k) value_key) = NaN
      \<or> \<not> num_lt (Fin 0) (toNumber sn (get_prop (fs ! k) value_key))"
    by auto
  then have "\<not> num_lt (Fin 0) (feature_value sn (fs ! k))"
    unfolding feature_value_def by (rule or_zero_not_positive)
  then have "feature_level sn breaks (fs ! k) = 0"
    by (simp add: feature_level_def Let_def)
  then show ?thesis
    using assign_nth_level [of breaks k fs sn] assms(1,2) by auto
qed

text \<open>
  The same at three features: one without the attribute, one with a non-numeric string,
  one with the value 0.
\<close>

lemma level_zero_three_features:
  "\<exists>fs'. assignLevelsToFeatures no_number
            (Some [\<lparr>properties = Some [''name'' \<mapsto> String ''A'']\<rparr>,
                   \<lparr>properties = Some [value_key \<mapsto> String ''n/a'']\<rparr>,
                   \<lparr>properties = Some [value_key \<mapsto> num 0]\<rparr>])
            (Some [num 1, num 10]) = Some fs' \<and>
         get_prop (fs' ! 0) level_key = num 0 \<and>
         get_prop (fs' ! 1) level_key = num 0 \<and>
         get_prop (fs' ! 2) level_key = num 0"
proof -
  let ?fs = "[\<lparr>properties = Some [''name'' \<mapsto> String ''A'']\<rparr>,
              \<lparr>properties = Some [value_key \<mapsto> String ''n/a'']\<rparr>,
              \<lparr>properties = Some [value_key \<mapsto> num 0]\<rparr>]"
  let ?bs = "[num 1, num 10]"
  have missing: "get_prop (?fs ! 0) value_key = Undefined"
    by (simp add: get_prop_def value_key_def)
  have non_numeric: "toNumber no_number (get_prop (?fs ! 1) value_key) = NaN"
    by (simp add: get_prop_def no_number_def)
  have zero: "\<not> num_lt (Fin 0) (toNumber no_number (get_prop (?fs ! 2) value_key))"
    by (simp add: get_prop_def)
  obtain a where a: "assignLevelsToFeatures no_number (Some ?fs) (Some ?bs) = Some a"
      "get_prop (a ! 0) level_key = num 0"
    using level_zero_without_positive_value [of ?bs 0 ?fs no_number] missing by auto
  obtain b where b: "assignLevelsToFeatures no_number (Some ?fs) (Some ?bs) = Some b"
      "get_prop (b ! 1) level_key = num 0"
    using level_zero_without_positive_value [of ?bs 1 ?fs no_number] non_numeric by auto
  obtain c where c: "assignLevelsToFeatures no_number (Some ?fs) (Some ?bs) = Some c"
      "get_prop (c ! 2) level_key = num 0"
    using level_zero_without_positive_value [of ?bs 2 ?fs no_number] zero by auto
  from a b c have "b = a" "c = a" by simp_all
  with a b c show ?thesis by blast
qed

text \<open>
  Claim C8 fails for the code. When no feature has a positive value,
  \<^verbatim>\<open>ensureHexData2Levels\<close> stores an empty breaks array and calls
  \<^verbatim>\<open>assignLevelsToFeatures(features, [])\<close>. The function returns at its guard
  \<^verbatim>\<open>breaks.length < 2\<close> before the loop, so a feature with the value 0 and a feature
  without the attribute are left without \<^verbatim>\<open>pride_level\<close>, where the claim gives them
  level 0 whatever the breaks are. The stored breaks 1, 10 of an earlier run are replaced
  by the empty array, and the features are returned as they were.
\<close>

theorem no_positive_value_no_level:
  "ensureHexData2Levels no_number
     \<lparr>hexData2 = Some [\<lparr>properties = Some [value_key \<mapsto> num 0]\<rparr>,
                        \<lparr>properties = Some [''name'' \<mapsto> String ''A'']\<rparr>],
      hexData2Breaks = [num 1, num 10]\<rparr>
   = Inr \<lparr>hexData2 = Some [\<lparr>properties = Some [value_key \<mapsto> num 0]\<rparr>,
                            \<lparr>properties = Some [''name'' \<mapsto> String ''A'']\<rparr>],
          hexData2Breaks = []\<rparr>
   \<and> assignLevelsToFeatures no_number
         (Some [\<lparr>properties = Some [value_key \<mapsto> num 0]\<rparr>,
                \<lparr>properties = Some [''name'' \<mapsto> String ''A'']\<rparr>]) (Some [])
     = Some [\<lparr>properties = Some [value_key \<mapsto> num 0]\<rparr>,
             \<lparr>properties = Some [''name'' \<mapsto> String ''A'']\<rparr>]
   \<and> get_prop \<lparr>properties = Some [value_key \<mapsto> num 0]\<rparr> level_key = Undefined
   \<and> get_prop \<lparr>properties = Some [''name'' \<mapsto> String ''A'']\<rparr> level_key = Undefined
   \<and> Undefined \<noteq> num 0"
  by (simp add: ensureHexData2Levels_def positive_values_def feature_value_def get_prop_def
      assignLevelsToFeatures_def value_key_def level_key_def List.map_filter_def)

text \<open>
  Claim C9. Level assignment is idempotent: assigning twice with the same breaks gives
  the same features, hence the same levels, as assigning once.
\<close>

theorem assignLevelsToFeatures_idempotent:
  "assignLevelsToFeatures sn (assignLevelsToFeatures sn features breaks) breaks
   = assignLevelsToFeatures sn features breaks"
  by (cases features; cases breaks) (simp_all add: assignLevelsToFeatures_def assign_level_idem)

text \<open>
  Claim C10. Level assignment keeps the number of features, leaves every field of a
  feature other than its property bag alone, and in the bag changes no key other than
  \<^verbatim>\<open>pride_level\<close>.
\<close>

theorem assignLevelsToFeatures_frame:
  "\<exists>fs'. assignLevelsToFeatures sn (Some fs) breaks = Some fs' \<and> length fs' = length fs \<and>
     (\<forall>i<length fs. feature.more (fs' ! i) = feature.more (fs ! i) \<and>
        (\<forall>k. k \<noteq> level_key \<longrightarrow> spread (fs' ! i) k = spread (fs ! i) k))"
  by (cases breaks) (simp_all add: assignLevelsToFeatures_def spread_assign_level more_assign_level)

text \<open>Claim C10 at a feature with a name and a value.\<close>

theorem assignLevelsToFeatures_frame_witness:
  "\<exists>fs'. assignLevelsToFeatures no_number
            (Some [\<lparr>properties = Some [''name'' \<mapsto> String ''A'', value_key \<mapsto> num 7]\<rparr>])
            (Some [num 1, num 10]) = Some fs' \<and>
         spread (fs' ! 0) ''name'' = Some (String ''A'') \<and>
         spread (fs' ! 0) value_key = Some (num 7)"
  using assignLevelsToFeatures_frame
          [of no_number "[\<lparr>properties = Some [''name'' \<mapsto> String ''A'', value_key \<mapsto> num 7]\<rparr>]"
              "Some [num 1, num 10]"]
  by (auto simp: spread_def value_key_def level_key_def)

lemma map_filter_no_finite:
  "\<forall>v\<in>set vs. \<not> isFinite v \<Longrightarrow> List.map_filter finite_part vs = []"
proof (induction vs)
  case Nil
  show ?case by (simp add: List.map_filter_simps)
next
  case (Cons v vs)
  then have "finite_part v = None"
    by (cases v rule: finite_part.cases) auto
  with Cons show ?case by (simp add: List.map_filter_simps)
qed

text \<open>
  Claim C6. On an array without any finite number, the empty array included, and for
  every class count, the result is null and nothing is thrown.
\<close>

theorem calculateNaturalBreaks_null:
  "\<forall>v\<in>set vs. \<not> isFinite v \<Longrightarrow> calculateNaturalBreaks (Some vs) classCount = Inr None"
  by (simp add: calculateNaturalBreaks_def sorted_finite_def map_filter_no_finite)

text \<open>Claim C6 at an array of non-finite values and at the empty array.\<close>

theorem calculateNaturalBreaks_null_witness:
  "calculateNaturalBreaks (Some [Undefined, Number PInf, Number NaN, String ''12'']) 6 = Inr None
   \<and> calculateNaturalBreaks (Some []) 6 = Inr None"
  using calculateNaturalBreaks_null [of "[Undefined, Number PInf, Number NaN, String ''12'']" 6]
    calculateNaturalBreaks_null [of "[]" 6]
  by simp

section \<open>Properties of the natural breaks\<close>

subsection \<open>Few distinct values\<close>

text \<open>A loop that pushes one value per index.\<close>

lemma fold_push_upt:
  "fold (\<lambda>i acc. acc @ [g i]) [a..<b] acc = acc @ map g [a..<b]"
proof (induction b arbitrary: acc)
  case 0
  show ?case by simp
next
  case (Suc b)
  show ?case
  proof (cases "a \<le> b")
    case True
    then show ?thesis by (simp add: Suc.IH)
  next
    case False
    then show ?thesis by simp
  qed
qed

text \<open>Finite numbers pass the filter unchanged.\<close>

lemma map_filter_finite_num: "List.map_filter finite_part (map num obs) = obs"
  by (induction obs) simp_all

lemma sorted_finite_num: "sorted_finite (map num obs) = sort obs"
  by (simp add: sorted_finite_def map_filter_finite_num)

lemma unique_fold_set:
  "set (fold (\<lambda>x acc. if x \<in> set acc then acc else acc @ [x]) xs acc) = set acc \<union> set xs"
  by (induction xs arbitrary: acc) auto

lemma unique_fold_distinct:
  "distinct acc \<Longrightarrow> distinct (fold (\<lambda>x acc. if x \<in> set acc then acc else acc @ [x]) xs acc)"
  by (induction xs arbitrary: acc) auto

lemma unique_fold_sorted:
  fixes xs :: "'a::linorder list"
  shows "sorted (acc @ xs) \<Longrightarrow> sorted (fold (\<lambda>x acc. if x \<in> set acc then acc else acc @ [x]) xs acc)"
proof (induction xs arbitrary: acc)
  case Nil
  then show ?case by simp
next
  case (Cons x xs)
  show ?case
  proof (cases "x \<in> set acc")
    case True
    from Cons.prems have "sorted (acc @ xs)"
      by (simp add: sorted_append)
    with True Cons.IH show ?thesis by simp
  next
    case False
    from Cons.prems have "sorted ((acc @ [x]) @ xs)" by simp
    with False Cons.IH show ?thesis by simp
  qed
qed

lemma uniqueValues_sort:
  fixes xs :: "'a::linorder list"
  shows "uniqueValues (sort xs) = sorted_list_of_set (set xs)"
proof (rule sorted_distinct_set_unique)
  show "sorted (uniqueValues (sort xs))"
    unfolding uniqueValues_def by (rule unique_fold_sorted) simp
  show "distinct (uniqueValues (sort xs))"
    unfolding uniqueValues_def by (rule unique_fold_distinct) simp
  show "set (uniqueValues (sort xs)) = set (sorted_list_of_set (set xs))"
    by (simp add: uniqueValues_def unique_fold_set)
qed simp_all

lemma pad_breaks_eq:
  "pad_breaks breaks classCount m = breaks @ replicate (classCount + 1 - length breaks) m"
proof (induction breaks classCount m rule: pad_breaks.induct)
  case (1 breaks classCount m)
  show ?case
  proof (cases "length breaks < classCount + 1")
    case True
    then have "classCount + 1 - length breaks = Suc (classCount - length breaks)"
      by simp
    with True "1.IH" show ?thesis
      by (subst pad_breaks.simps) (simp add: replicate_app_Cons_same)
  next
    case False
    then show ?thesis by (subst pad_breaks.simps) simp
  qed
qed

lemma copy_values: "u \<noteq> [] \<Longrightarrow> fold (\<lambda>i breaks. breaks @ [u ! i]) [1..<length u] [u ! 0] = u"
proof -
  assume "u \<noteq> []"
  then have "[0..<length u] = 0 # [1..<length u]"
    by (simp add: upt_conv_Cons)
  then have "map ((!) u) [0..<length u] = [u ! 0] @ map ((!) u) [1..<length u]"
    by simp
  then show ?thesis
    by (simp only: fold_push_upt map_nth)
qed

lemma few_values_breaks_eq:
  assumes "u \<noteq> []"
  shows "few_values_breaks u classCount = u @ replicate (classCount + 1 - length u) (last u)"
  by (simp only: few_values_breaks_def copy_values [OF assms] pad_breaks_eq last_conv_nth [OF assms])

lemma sorted_last_Max:
  fixes xs :: "'a::linorder list"
  assumes "sorted xs" and "xs \<noteq> []"
  shows "last xs = Max (set xs)"
proof (rule Max_eqI [symmetric])
  show "finite (set xs)" by simp
  show "last xs \<in> set xs" using assms(2) by simp
  fix y assume "y \<in> set xs"
  then obtain i where "i < length xs" "xs ! i = y"
    by (auto simp: in_set_conv_nth)
  then show "y \<le> last xs"
    using sorted_nth_mono [OF assms(1), of i "length xs - 1"] assms(2)
    by (auto simp: last_conv_nth)
qed

lemma sorted_hd_Min:
  fixes xs :: "'a::linorder list"
  assumes "sorted xs" and "xs \<noteq> []"
  shows "hd xs = Min (set xs)"
proof (rule Min_eqI [symmetric])
  show "finite (set xs)" by simp
  show "hd xs \<in> set xs" using assms(2) by simp
  fix y assume "y \<in> set xs"
  then show "hd xs \<le> y"
    using assms by (cases xs) auto
qed

lemma calculateNaturalBreaks_few:
  assumes "obs \<noteq> []" and "card (set obs) \<le> classCount"
  shows "calculateNaturalBreaks (Some (map num obs)) classCount =
           Inr (Some (map num (sorted_list_of_set (set obs)
                                @ replicate (classCount + 1 - card (set obs)) (Max (set obs)))))"
proof -
  let ?u = "sorted_list_of_set (set obs)"
  from assms(1) have ne: "?u \<noteq> []" "sort obs \<noteq> []"
    by (auto simp flip: length_0_conv simp del: length_0_conv length_greater_0_conv)
  have "last ?u = Max (set obs)"
    using sorted_last_Max [of ?u] ne by simp
  then have "few_values_breaks ?u classCount =
      ?u @ replicate (classCount + 1 - card (set obs)) (Max (set obs))"
    using ne by (simp add: few_values_breaks_eq)
  then show ?thesis
    using assms ne
    by (simp add: calculateNaturalBreaks_def sorted_finite_num uniqueValues_sort Let_def)
qed


text \<open>
  Claim C5. When a non-empty list of observations has at most \<open>classCount\<close> distinct
  values, the breaks are the distinct values in ascending order followed by copies of
  the maximum, \<open>classCount + 1\<close> entries in all. For the observations 5, 5, 5 and six
  classes that is seven entries equal to 5, and with these breaks every feature with
  value 5 is assigned level 1.
\<close>

theorem few_distinct_values_breaks:
  "(obs \<noteq> [] \<and> card (set obs) \<le> classCount \<longrightarrow>
      calculateNaturalBreaks (Some (map num obs)) classCount =
        Inr (Some (map num (sorted_list_of_set (set obs)
                             @ replicate (classCount + 1 - card (set obs)) (Max (set obs))))))
   \<and> calculateNaturalBreaks (Some (map num [5, 5, 5])) 6 = Inr (Some (map num (replicate 7 5)))
   \<and> (k < length fs \<and> feature_value sn (fs ! k) = Fin 5 \<longrightarrow>
        (\<exists>fs'. assignLevelsToFeatures sn (Some fs) (Some (map num (replicate 7 5))) = Some fs' \<and>
               get_prop (fs' ! k) level_key = num 1))"
proof (intro conjI impI)
  assume "obs \<noteq> [] \<and> card (set obs) \<le> classCount"
  then show "calculateNaturalBreaks (Some (map num obs)) classCount =
        Inr (Some (map num (sorted_list_of_set (set obs)
                             @ replicate (classCount + 1 - card (set obs)) (Max (set obs)))))"
    by (simp add: calculateNaturalBreaks_few)
next
  have "calculateNaturalBreaks (Some (map num [5, 5, 5])) 6 =
          Inr (Some (map num (sorted_list_of_set (set [5, 5, 5])
                               @ replicate (6 + 1 - card (set [5, 5, 5 :: rat])) (Max (set [5, 5, 5])))))"
    by (rule calculateNaturalBreaks_few) simp_all
  also have "sorted_list_of_set (set [5, 5, 5]) @ replicate (6 + 1 - card (set [5, 5, 5 :: rat])) (Max (set [5, 5, 5]))
      = replicate 7 (5 :: rat)"
    by (simp add: numeral_eq_Suc)
  finally show "calculateNaturalBreaks (Some (map num [5, 5, 5])) 6 = Inr (Some (map num (replicate 7 5)))" .
next
  assume a: "k < length fs \<and> feature_value sn (fs ! k) = Fin 5"
  let ?bs = "map num (replicate 7 5)"
  have "level_scan sn (Fin 5) ?bs 0 = 1"
    by (subst level_scan.simps) simp
  with a have "feature_level sn ?bs (fs ! k) = 1"
    by (simp add: feature_level_def)
  then show "\<exists>fs'. assignLevelsToFeatures sn (Some fs) (Some ?bs) = Some fs' \<and>
               get_prop (fs' ! k) level_key = num 1"
    using assign_nth_level [of ?bs k fs sn] a by auto
qed

text \<open>
  Claim C5 at the observations 3, 1, 3 with six classes, and at one feature with value 5.
\<close>

theorem few_distinct_values_breaks_witness:
  "calculateNaturalBreaks (Some (map num [3, 1, 3])) 6 = Inr (Some (map num [1, 3, 3, 3, 3, 3, 3]))
   \<and> (\<exists>fs'. assignLevelsToFeatures no_number (Some [\<lparr>properties = Some [value_key \<mapsto> num 5]\<rparr>])
               (Some (map num (replicate 7 5))) = Some fs' \<and>
             get_prop (fs' ! 0) level_key = num 1)"
proof -
  have few: "[3, 1, 3 :: rat] \<noteq> [] \<and> card (set [3, 1, 3 :: rat]) \<le> 6"
    by (simp only: List.card_set) simp
  have five: "0 < length [\<lparr>properties = Some [value_key \<mapsto> num 5]\<rparr>] \<and>
      feature_value no_number ([\<lparr>properties = Some [value_key \<mapsto> num 5]\<rparr>] ! 0) = Fin 5"
    by (simp add: feature_value_def get_prop_def)
  have shape: "sorted_list_of_set (set [3, 1, 3 :: rat])
        @ replicate (6 + 1 - card (set [3, 1, 3 :: rat])) (Max (set [3, 1, 3]))
      = [1, 3, 3, 3, 3, 3, 3]"
    by (simp only: List.card_set sorted_list_of_set_sort_remdups) (simp add: numeral_eq_Suc)
  from few_distinct_values_breaks
         [of "[3, 1, 3]" 6 0 "[\<lparr>properties = Some [value_key \<mapsto> num 5]\<rparr>]" no_number]
    few five
  show ?thesis
    by (simp only: shape) blast
qed

text \<open>
  On a non-empty array of finite numbers the result is never null, so the equal-interval
  branch of \<^verbatim>\<open>ensureHexData2Levels\<close>, which calls with such an array, is not taken.
\<close>

lemma calculateNaturalBreaks_not_null:
  assumes "obs \<noteq> []"
  shows "calculateNaturalBreaks (Some (map num obs)) classCount \<noteq> Inr None"
proof -
  from assms have "sort obs \<noteq> []"
    by (auto simp flip: length_0_conv simp del: length_0_conv length_greater_0_conv)
  with assms show ?thesis
    by (simp add: calculateNaturalBreaks_def sorted_finite_num Let_def split: sum.splits)
qed

subsection \<open>The example of nine observations\<close>

text \<open>
  Claim C2, evaluated. For the observations 1, 2, 3, 10, 11, 12, 50, 51, 52 and three
  classes the dynamic programme finds the classes that start at 1, 10 and 50, and the
  breaks returned are these lower limits followed by the maximum: 1, 10, 50, 52, not
  1, 3, 12, 52. With these breaks the first-match scan puts the value 10 into level 1
  and the value 50 into level 2, below the classes the programme computed for them.
\<close>

theorem natural_breaks_example:
  "calculateNaturalBreaks (Some (map num [1, 2, 3, 10, 11, 12, 50, 51, 52])) 3
     = Inr (Some (map num [1, 10, 50, 52]))
   \<and> assignLevelsToFeatures no_number
        (Some [\<lparr>properties = Some [value_key \<mapsto> num 10]\<rparr>,
               \<lparr>properties = Some [value_key \<mapsto> num 50]\<rparr>])
        (Some (map num [1, 10, 50, 52]))
     = Some [\<lparr>properties = Some [value_key \<mapsto> num 10, level_key \<mapsto> num 1]\<rparr>,
             \<lparr>properties = Some [value_key \<mapsto> num 50, level_key \<mapsto> num 2]\<rparr>]"
proof
  show "calculateNaturalBreaks (Some (map num [1, 2, 3, 10, 11, 12, 50, 51, 52])) 3
     = Inr (Some (map num [1, 10, 50, 52]))"
    by code_simp
  show "assignLevelsToFeatures no_number
        (Some [\<lparr>properties = Some [value_key \<mapsto> num 10]\<rparr>,
               \<lparr>properties = Some [value_key \<mapsto> num 50]\<rparr>])
        (Some (map num [1, 10, 50, 52]))
     = Some [\<lparr>properties = Some [value_key \<mapsto> num 10, level_key \<mapsto> num 1]\<rparr>,
             \<lparr>properties = Some [value_key \<mapsto> num 50, level_key \<mapsto> num 2]\<rparr>]"
    by (simp add: assignLevelsToFeatures_def assign_level_def feature_level_def feature_value_def
        get_prop_def spread_def level_scan.simps)
qed

subsection \<open>Values whose squares are rounded\<close>

text \<open>
  The sum of the squares of 67108864 and 67108865 is above \<open>2\<^sup>5\<^sup>3\<close> and is rounded to an
  even integer, so the sum of squares of the single value 67108865, taken as the
  difference of two prefix sums, is one less than its square: the variance that
  \<^verbatim>\<open>sumSquaresRange - (sumRange * sumRange) / count\<close> gives for this one value is -1.
\<close>

lemma single_value_variance_negative:
  "value_of (dbl_sub
      (dbl_sub (dbl_add (dbl_mul (double_of 67108864) (double_of 67108864))
                        (dbl_mul (double_of 67108865) (double_of 67108865)))
               (dbl_mul (double_of 67108864) (double_of 67108864)))
      (dbl_div (dbl_mul (double_of 67108865) (double_of 67108865)) (of_count 1)))
   = Fin (- 1)"
  by code_simp

text \<open>
  Claim C1 fails for the code. A candidate class with a negative variance is skipped
  (\<^verbatim>\<open>if (currentVariance < 0) continue\<close>); when this leaves a cell of
  \<^verbatim>\<open>lowerClassLimits\<close> at its initial value \<^verbatim>\<open>classes - 1\<close>, the backtracking walks
  below row 0 and reads \<^verbatim>\<open>lowerClassLimits[-1][count]\<close>, a property of
  \<^verbatim>\<open>undefined\<close>. For the seven positive observations 67108864, ..., 67108870 and six
  classes, the class count that \<^verbatim>\<open>ensureHexData2Levels\<close> uses, and for the five
  observations 67108864, ..., 67108868 and four classes, the function throws a TypeError
  and returns no breaks at all.
\<close>

theorem natural_breaks_type_error:
  "calculateNaturalBreaks
     (Some (map num [67108864, 67108865, 67108866, 67108867, 67108868, 67108869, 67108870])) 6
     = Inl TypeError
   \<and> calculateNaturalBreaks
       (Some (map num [67108864, 67108865, 67108866, 67108867, 67108868])) 4
     = Inl TypeError"
  by code_simp

section \<open>Properties of rounding to a double\<close>

text \<open>
  One sum in doubles: \<^verbatim>\<open>0.1 + 0.2\<close> is \<^verbatim>\<open>0.30000000000000004\<close>, the double
  \<open>1351079888211149 / 2\<^sup>5\<^sup>2\<close>.
\<close>

lemma sum_of_tenths:
  "value_of (dbl_add (double_of (1 / 10)) (double_of (2 / 10)))
   = Fin (1351079888211149 / 4503599627370496)"
  by code_simp

subsection \<open>The binary exponent of a fraction\<close>







subsection \<open>Rounding to the nearest integer\<close>






subsection \<open>Rounding is monotone\<close>




















subsection \<open>Sums, products and quotients of non-negative doubles\<close>














section \<open>Properties of the equal-interval breaks\<close>









end
